theory Spec2Isabelle
  imports Main
begin

section \<open>JavaScript values that cross the service boundary\<close>

text \<open>
  The client receives JSON from the transcription service, through \<open>response.json()\<close> and
  through \<open>JSON.parse(event.data)\<close>. Both return a value of TypeScript type \<open>any\<close>: the
  declared types \<open>TranscriptionResult\<close> and \<open>string\<close> are assertions, nothing checks them
  at run time. The model therefore keeps the parsed value as it is. Numbers are the
  integers that JavaScript represents exactly (magnitude below \<open>2^53\<close>), which it prints
  in decimal notation without an exponent; fractions and larger numbers are not modelled
  (the properties below use numbers only through zero being falsy). An object is its list
  of own properties in enumeration order, keys distinct.
\<close>

datatype json =
    JNull
  | JBool bool
  | JNum int
  | JStr string
  | JArr "json list"
  | JObj "(string \<times> json) list"

text \<open>A JavaScript value read from such data: \<open>None\<close> is \<open>undefined\<close>.\<close>

type_synonym js_value = "json option"

abbreviation undefined_js :: js_value where
  "undefined_js \<equiv> None"

abbreviation null_js :: js_value where
  "null_js \<equiv> Some JNull"

text \<open>
  Everything thrown in this program is an \<open>Error\<close> object: the program's own
  \<open>new Error(msg)\<close>, and the \<open>TypeError\<close> and \<open>SyntaxError\<close> that the engine or the
  browser raises. The wording of the latter two is not fixed by the program, so their
  message stays symbolic.
\<close>

datatype js_error =
    Error string
  | TypeError
  | SyntaxError

datatype message =
    Message string
  | EngineMessage js_error

fun message_of :: "js_error \<Rightarrow> message" where
  "message_of (Error m) = Message m"
| "message_of e = EngineMessage e"

text \<open>Truthiness, as \<open>if (v)\<close> tests it.\<close>

fun truthy :: "js_value \<Rightarrow> bool" where
  "truthy None = False"
| "truthy (Some JNull) = False"
| "truthy (Some (JBool b)) = b"
| "truthy (Some (JNum n)) = (n \<noteq> 0)"
| "truthy (Some (JStr s)) = (s \<noteq> [])"
| "truthy (Some (JArr xs)) = True"
| "truthy (Some (JObj ps)) = True"

text \<open>
  Reading a property \<open>v.k\<close>, for the property names this program reads (\<open>text\<close>,
  \<open>segments\<close>, \<open>sessionId\<close>), none of which a built-in prototype defines: on \<open>null\<close>
  the read throws a \<open>TypeError\<close>, on an object it gives the own property or
  \<open>undefined\<close>, on every other value \<open>undefined\<close>.
\<close>

fun get_prop :: "json \<Rightarrow> string \<Rightarrow> js_error + js_value" where
  "get_prop JNull k = Inl TypeError"
| "get_prop (JObj ps) k = Inr (map_of ps k)"
| "get_prop v k = Inr None"

definition newline :: string where
  "newline = [CHR 0x0A]"

text \<open>\<open>Array.prototype.join\<close> on strings.\<close>

fun join :: "string \<Rightarrow> string list \<Rightarrow> string" where
  "join sep [] = []"
| "join sep [x] = x"
| "join sep (x # y # ys) = x @ sep @ join sep (y # ys)"

fun digit_char :: "nat \<Rightarrow> char" where
  "digit_char n = char_of (48 + n)"

fun string_of_nat :: "nat \<Rightarrow> string" where
  "string_of_nat n =
     (if n < 10 then [digit_char n] else string_of_nat (n div 10) @ [digit_char (n mod 10)])"

declare string_of_nat.simps [simp del]

definition string_of_int :: "int \<Rightarrow> string" where
  "string_of_int i = (if i < 0 then CHR ''-'' # string_of_nat (nat (- i)) else string_of_nat (nat i))"

text \<open>
  The conversion to a string that \<open>+\<close> and \<open>join\<close> apply to an operand. Inside an
  array, \<open>null\<close> and \<open>undefined\<close> elements are rendered as the empty string. The
  rendering of a number is JavaScript's for the integers of magnitude below \<open>2^53\<close>
  only.
\<close>

fun js_ToString :: "json \<Rightarrow> string" where
  "js_ToString JNull = ''null''"
| "js_ToString (JBool b) = (if b then ''true'' else ''false'')"
| "js_ToString (JNum n) = string_of_int n"
| "js_ToString (JStr s) = s"
| "js_ToString (JArr xs) = join '','' (map (\<lambda>x. if x = JNull then [] else js_ToString x) xs)"
| "js_ToString (JObj ps) = ''[object Object]''"

fun join_element :: "js_value \<Rightarrow> string" where
  "join_element None = []"
| "join_element (Some JNull) = []"
| "join_element (Some v) = js_ToString v"


text \<open>
  \<open>result.segments.map(segment => segment.text).join('\n')\<close>, the expression every
  handler applies to a transcription result. It throws a \<open>TypeError\<close> when \<open>result\<close>
  is \<open>null\<close>, when \<open>result.segments\<close> is not an array (calling \<open>map\<close> on it fails),
  and when a segment is \<open>null\<close>.
\<close>

fun segment_texts :: "json list \<Rightarrow> js_error + js_value list" where
  "segment_texts [] = Inr []"
| "segment_texts (segment # rest) =
     (case get_prop segment ''text'' of
        Inl e \<Rightarrow> Inl e
      | Inr t \<Rightarrow> (case segment_texts rest of Inl e \<Rightarrow> Inl e | Inr ts \<Rightarrow> Inr (t # ts)))"

definition segments_text :: "json \<Rightarrow> js_error + string" where
  "segments_text result =
     (case get_prop result ''segments'' of
        Inl e \<Rightarrow> Inl e
      | Inr (Some (JArr segs)) \<Rightarrow>
          (case segment_texts segs of
             Inl e \<Rightarrow> Inl e
           | Inr ts \<Rightarrow> Inr (join newline (map join_element ts)))
      | Inr other \<Rightarrow> Inl TypeError)"

text \<open>\<open>Object.values(v)\<close>: throws on \<open>null\<close>; a string gives its characters.\<close>

fun Object_values :: "json \<Rightarrow> js_error + json list" where
  "Object_values JNull = Inl TypeError"
| "Object_values (JObj ps) = Inr (map snd ps)"
| "Object_values (JArr xs) = Inr xs"
| "Object_values (JStr s) = Inr (map (\<lambda>c. JStr [c]) s)"
| "Object_values v = Inr []"

fun results_texts :: "json list \<Rightarrow> js_error + string list" where
  "results_texts [] = Inr []"
| "results_texts (result # rest) =
     (case segments_text result of
        Inl e \<Rightarrow> Inl e
      | Inr t \<Rightarrow> (case results_texts rest of Inl e \<Rightarrow> Inl e | Inr ts \<Rightarrow> Inr (t # ts)))"

section \<open>The declared data types of \<open>api.ts\<close>\<close>

record TranscriptionOptions =
  modelSize :: string
  inputLanguage :: string
  outputLanguage :: string
  format :: string
  preprocess :: bool
  highPass :: bool
  hpCutoff :: int
  hpOrder :: int
  temperature :: int

text \<open>The fields \<open>text\<close>, \<open>start\<close> and \<open>end\<close> of a segment carry the prefix \<open>seg_\<close> here.\<close>

record TranscriptionSegment =
  seg_text :: string
  seg_start :: int
  seg_end :: int

record TranscriptionResult =
  original_language :: string
  output_language :: string
  language_probability :: int
  segments :: "TranscriptionSegment list"
  output_file :: string

text \<open>
  The JSON that the service sends for a well-formed result, and the JSON that
  \<open>JSON.stringify(options)\<close> sends for the options.
\<close>

definition json_of_segment :: "TranscriptionSegment \<Rightarrow> json" where
  "json_of_segment seg =
     JObj [(''text'', JStr (seg_text seg)), (''start'', JNum (seg_start seg)),
           (''end'', JNum (seg_end seg))]"

definition json_of_result :: "TranscriptionResult \<Rightarrow> json" where
  "json_of_result r =
     JObj [(''original_language'', JStr (original_language r)),
           (''output_language'', JStr (output_language r)),
           (''language_probability'', JNum (language_probability r)),
           (''segments'', JArr (map json_of_segment (segments r))),
           (''output_file'', JStr (output_file r))]"

definition json_of_options :: "TranscriptionOptions \<Rightarrow> json" where
  "json_of_options options =
     JObj [(''modelSize'', JStr (modelSize options)),
           (''inputLanguage'', JStr (inputLanguage options)),
           (''outputLanguage'', JStr (outputLanguage options)),
           (''format'', JStr (format options)),
           (''preprocess'', JBool (preprocess options)),
           (''highPass'', JBool (highPass options)),
           (''hpCutoff'', JNum (hpCutoff options)),
           (''hpOrder'', JNum (hpOrder options)),
           (''temperature'', JNum (temperature options))]"

section \<open>The request client, \<open>api.ts\<close>\<close>

datatype audio_file = File (name: string) (content: string)

datatype form_value =
    FilePart audio_file string
  | TextPart string

datatype body =
    FormData "(string \<times> form_value) list"
  | JsonText json

datatype request = Request (url: string) (http_method: string) (headers: "(string \<times> string) list") (body: body)

text \<open>
  What the network answers to one \<open>fetch\<close>: the promise rejects (a \<open>TypeError\<close>), or
  it resolves to a response with its \<open>ok\<close> flag and what \<open>response.json()\<close> makes of
  the body (\<open>None\<close>: the body is not JSON, the promise rejects with a \<open>SyntaxError\<close>).
\<close>

datatype fetch_outcome =
    NetworkFailure
  | Response bool "json option"

definition BASE_URL :: string where
  "BASE_URL = ''http://localhost:8000''"

fun response_json :: "json option \<Rightarrow> js_error + json" where
  "response_json None = Inl SyntaxError"
| "response_json (Some v) = Inr v"

definition option_fields :: "TranscriptionOptions \<Rightarrow> (string \<times> form_value) list" where
  "option_fields options =
     [(''model_size'', TextPart (modelSize options)),
      (''input_lang'', TextPart (inputLanguage options)),
      (''output_lang'', TextPart (outputLanguage options)),
      (''out_format'', TextPart (format options))]"

text \<open>Each function returns the requests it issued and how its promise settles.\<close>

definition transcribeFile ::
  "audio_file \<Rightarrow> TranscriptionOptions \<Rightarrow> fetch_outcome \<Rightarrow> request list \<times> (js_error + json)" where
  "transcribeFile file options outcome =
     (let formData = (''file'', FilePart file (name file)) # option_fields options;
          issued = [Request (BASE_URL @ ''/transcribe'') ''POST'' [] (FormData formData)]
      in case outcome of
           NetworkFailure \<Rightarrow> (issued, Inl TypeError)
         | Response ok parsed \<Rightarrow>
             if \<not> ok then (issued, Inl (Error ''Transcription failed''))
             else (issued, response_json parsed))"

definition transcribeBatch ::
  "audio_file list \<Rightarrow> TranscriptionOptions \<Rightarrow> fetch_outcome \<Rightarrow> request list \<times> (js_error + json)" where
  "transcribeBatch files options outcome =
     (let formData = map (\<lambda>file. (''files'', FilePart file (name file))) files @ option_fields options;
          issued = [Request (BASE_URL @ ''/transcribe-batch'') ''POST'' [] (FormData formData)]
      in case outcome of
           NetworkFailure \<Rightarrow> (issued, Inl TypeError)
         | Response ok parsed \<Rightarrow>
             if \<not> ok then (issued, Inl (Error ''Batch transcription failed''))
             else (issued, response_json parsed))"

definition startRecording ::
  "TranscriptionOptions \<Rightarrow> fetch_outcome \<Rightarrow> request list \<times> (js_error + js_value)" where
  "startRecording options outcome =
     (let formData = [(''model_size'', TextPart (modelSize options)),
                      (''input_lang'', TextPart (inputLanguage options)),
                      (''output_lang'', TextPart (outputLanguage options))];
          issued = [Request (BASE_URL @ ''/start-recording'') ''POST'' [] (FormData formData)]
      in case outcome of
           NetworkFailure \<Rightarrow> (issued, Inl TypeError)
         | Response ok parsed \<Rightarrow>
             if \<not> ok then (issued, Inl (Error ''Failed to start recording''))
             else (case response_json parsed of
                     Inl e \<Rightarrow> (issued, Inl e)
                   | Inr data \<Rightarrow> (issued, get_prop data ''sessionId'')))"

text \<open>\<open>JSON.stringify({ sessionId })\<close> leaves an \<open>undefined\<close> property out.\<close>

definition stopRecording ::
  "js_value \<Rightarrow> fetch_outcome \<Rightarrow> request list \<times> (js_error + json)" where
  "stopRecording sessionId outcome =
     (let payload = JObj (case sessionId of None \<Rightarrow> [] | Some v \<Rightarrow> [(''sessionId'', v)]);
          issued = [Request (BASE_URL @ ''/stop-recording'') ''POST''
                      [(''Content-Type'', ''application/json'')] (JsonText payload)]
      in case outcome of
           NetworkFailure \<Rightarrow> (issued, Inl TypeError)
         | Response ok parsed \<Rightarrow>
             if \<not> ok then (issued, Inl (Error ''Failed to stop recording''))
             else (issued, response_json parsed))"

section \<open>The live stream client, \<open>api.startLiveCaptioning\<close>\<close>

text \<open>
  The browser's \<open>WebSocket\<close>, as far as this program uses it. The socket keeps the
  \<open>options\<close> that its \<open>onopen\<close> closure captured and the messages it has sent.
\<close>

datatype ready_state = CONNECTING | OPEN | CLOSING | CLOSED

record websocket =
  ws_url :: string
  readyState :: ready_state
  ws_options :: TranscriptionOptions
  sent :: "json list"

text \<open>
  What \<open>ws.onmessage\<close> does with one event. The argument is what \<open>JSON.parse\<close>
  makes of \<open>event.data\<close> (\<open>None\<close>: it throws a \<open>SyntaxError\<close>). The handler calls
  \<open>onUpdate(data.text)\<close>, or logs the caught error with \<open>console.error\<close>, or does
  nothing.
\<close>

datatype onmessage_effect =
    OnUpdate json
  | ConsoleError js_error
  | NoEffect

definition ws_onmessage :: "json option \<Rightarrow> onmessage_effect" where
  "ws_onmessage event_data =
     (case event_data of
        None \<Rightarrow> ConsoleError SyntaxError
      | Some data \<Rightarrow>
          (case get_prop data ''text'' of
             Inl e \<Rightarrow> ConsoleError e
           | Inr None \<Rightarrow> NoEffect
           | Inr (Some t) \<Rightarrow> if truthy (Some t) then OnUpdate t else NoEffect))"

text \<open>The calls of the subscriber that a sequence of incoming messages causes, in order.\<close>

fun delivered :: "json option list \<Rightarrow> json list" where
  "delivered [] = []"
| "delivered (m # ms) =
     (case ws_onmessage m of OnUpdate t \<Rightarrow> t # delivered ms | other \<Rightarrow> delivered ms)"

section \<open>The application state, \<open>App.tsx\<close>\<close>

text \<open>
  The state variables of the \<open>App\<close> component, followed by what the component has done to
  its environment: the requests issued, the lines written with \<open>console.error\<close>, and the
  sockets created. The state variable \<open>modelSize\<close> is \<open>modelSizeSetting\<close> here (the
  options record has a field \<open>modelSize\<close>). \<open>currentSessionId\<close> is declared
  \<open>string | null\<close> and holds whatever \<open>data.sessionId\<close> was.
\<close>

record app_state =
  selectedTab :: string
  fileTranscription :: string
  micTranscription :: string
  batchTranscription :: string
  liveTranscription :: string
  inputLang :: string
  outputLang :: string
  modelSizeSetting :: string
  isRecording :: bool
  isProcessing :: bool
  currentSessionId :: js_value
  error :: "message option"
  copySuccess :: bool
  requests :: "request list"
  console :: "js_error list"
  sockets :: "websocket list"

definition initial_state :: app_state where
  "initial_state =
     \<lparr>selectedTab = ''file'', fileTranscription = [], micTranscription = [],
      batchTranscription = [], liveTranscription = [], inputLang = ''auto'',
      outputLang = ''en'', modelSizeSetting = ''medium'', isRecording = False,
      isProcessing = False, currentSessionId = null_js, error = None, copySuccess = False,
      requests = [], console = [], sockets = []\<rparr>"

definition getTranscriptionOptions :: "app_state \<Rightarrow> TranscriptionOptions" where
  "getTranscriptionOptions s =
     \<lparr>modelSize = modelSizeSetting s, inputLanguage = inputLang s, outputLanguage = outputLang s,
      format = ''txt'', preprocess = True, highPass = True, hpCutoff = 80, hpOrder = 4,
      temperature = 0\<rparr>"

text \<open>
  \<open>err instanceof Error ? err.message : fallback\<close>. Every value thrown in this program
  is an \<open>Error\<close>.
\<close>

fun instanceof_Error :: "js_error \<Rightarrow> bool" where
  "instanceof_Error e = True"

definition caught_message :: "js_error \<Rightarrow> string \<Rightarrow> message" where
  "caught_message err fallback = (if instanceof_Error err then message_of err else Message fallback)"

text \<open>
  Each handler runs to completion here, with the outcome of its one awaited request as an
  argument: what other events do while the request is in flight is not modelled.
\<close>

definition handleFileUpload :: "audio_file option \<Rightarrow> fetch_outcome \<Rightarrow> app_state \<Rightarrow> app_state" where
  "handleFileUpload file outcome s =
     (case file of
        None \<Rightarrow> s
      | Some f \<Rightarrow>
          (let s1 = s\<lparr>isProcessing := True, error := None\<rparr>;
               (issued, settled) = transcribeFile f (getTranscriptionOptions s) outcome;
               s2 = s1\<lparr>requests := requests s1 @ issued\<rparr>;
               s3 = (case settled of
                       Inl err \<Rightarrow> s2\<lparr>error := Some (caught_message err ''Failed to process file'')\<rparr>
                     | Inr result \<Rightarrow>
                         (case segments_text result of
                            Inl err \<Rightarrow> s2\<lparr>error := Some (caught_message err ''Failed to process file'')\<rparr>
                          | Inr joined \<Rightarrow> s2\<lparr>fileTranscription := joined\<rparr>))
           in s3\<lparr>isProcessing := False\<rparr>))"

definition combinedTranscription :: "json \<Rightarrow> js_error + string" where
  "combinedTranscription results =
     (case Object_values results of
        Inl e \<Rightarrow> Inl e
      | Inr rs \<Rightarrow> (case results_texts rs of
                    Inl e \<Rightarrow> Inl e
                  | Inr ts \<Rightarrow> Inr (join (newline @ newline) ts)))"

definition handleBatchUpload :: "audio_file list \<Rightarrow> fetch_outcome \<Rightarrow> app_state \<Rightarrow> app_state" where
  "handleBatchUpload files outcome s =
     (if length files = 0 then s
      else
        (let s1 = s\<lparr>isProcessing := True, error := None\<rparr>;
             (issued, settled) = transcribeBatch files (getTranscriptionOptions s) outcome;
             s2 = s1\<lparr>requests := requests s1 @ issued\<rparr>;
             s3 = (case settled of
                     Inl err \<Rightarrow> s2\<lparr>error := Some (caught_message err ''Failed to process files'')\<rparr>
                   | Inr results \<Rightarrow>
                       (case combinedTranscription results of
                          Inl err \<Rightarrow> s2\<lparr>error := Some (caught_message err ''Failed to process files'')\<rparr>
                        | Inr combined \<Rightarrow> s2\<lparr>batchTranscription := combined\<rparr>))
         in s3\<lparr>isProcessing := False\<rparr>))"

definition handleRecordToggle :: "fetch_outcome \<Rightarrow> app_state \<Rightarrow> app_state" where
  "handleRecordToggle outcome s =
     (if isRecording s then
        (let s1 = (if truthy (currentSessionId s) then
                     (let (issued, settled) = stopRecording (currentSessionId s) outcome;
                          s' = s\<lparr>requests := requests s @ issued\<rparr>
                      in case settled of
                           Inl err \<Rightarrow> s'\<lparr>error := Some (caught_message err ''Failed to stop recording'')\<rparr>
                         | Inr result \<Rightarrow>
                             (case segments_text result of
                                Inl err \<Rightarrow> s'\<lparr>error := Some (caught_message err ''Failed to stop recording'')\<rparr>
                              | Inr joined \<Rightarrow> s'\<lparr>micTranscription := joined\<rparr>))
                   else s)
         in s1\<lparr>isRecording := False, currentSessionId := null_js\<rparr>)
      else
        (let (issued, settled) = startRecording (getTranscriptionOptions s) outcome;
             s' = s\<lparr>requests := requests s @ issued\<rparr>
         in case settled of
              Inl err \<Rightarrow> s'\<lparr>error := Some (caught_message err ''Failed to start recording'')\<rparr>
            | Inr sessionId \<Rightarrow> s'\<lparr>currentSessionId := sessionId, isRecording := True, error := None\<rparr>))"

text \<open>
  The cleanup of the effect on \<open>currentSessionId\<close>:
  \<open>api.stopRecording(currentSessionId).catch(console.error)\<close>. React runs it when the
  component unmounts (and, the effect depending on \<open>currentSessionId\<close>, each time that
  variable changes, with the state before the change).
\<close>

definition unmount_cleanup :: "fetch_outcome \<Rightarrow> app_state \<Rightarrow> app_state" where
  "unmount_cleanup outcome s =
     (if truthy (currentSessionId s) then
        (let (issued, settled) = stopRecording (currentSessionId s) outcome;
             s' = s\<lparr>requests := requests s @ issued\<rparr>
         in case settled of
              Inl err \<Rightarrow> s'\<lparr>console := console s' @ [err]\<rparr>
            | Inr result \<Rightarrow> s')
      else s)"

text \<open>
  The subscriber that \<open>handleLiveCaptioning\<close> passes to the live stream client:
  \<open>(text) => setLiveTranscription(prev => prev + '\n' + text)\<close>.
\<close>

definition onUpdate :: "json \<Rightarrow> app_state \<Rightarrow> app_state" where
  "onUpdate t s = s\<lparr>liveTranscription := liveTranscription s @ newline @ js_ToString t\<rparr>"

text \<open>\<open>BASE_URL.replace(/^http/, "ws") + "/live-captioning"\<close>.\<close>

definition wsUrl :: string where
  "wsUrl = (if take 4 BASE_URL = ''http'' then ''ws'' @ drop 4 BASE_URL else BASE_URL) @ ''/live-captioning''"

text \<open>
  \<open>api.startLiveCaptioning(options, onUpdate)\<close> creates a socket, still connecting, and
  returns the function that closes it; the function is represented by the position of the
  socket among the sockets created, and calling it is \<open>ws_close\<close>.
\<close>

definition startLiveCaptioning :: "TranscriptionOptions \<Rightarrow> app_state \<Rightarrow> nat \<times> app_state" where
  "startLiveCaptioning options s =
     (length (sockets s),
      s\<lparr>sockets := sockets s @
           [\<lparr>ws_url = wsUrl, readyState = CONNECTING, ws_options = options, sent = []\<rparr>]\<rparr>)"

definition ws_close :: "nat \<Rightarrow> app_state \<Rightarrow> app_state" where
  "ws_close i s =
     (if i < length (sockets s) then
        (let ws = sockets s ! i
         in if readyState ws = CLOSING \<or> readyState ws = CLOSED then s
            else s\<lparr>sockets := (sockets s)[i := ws\<lparr>readyState := CLOSING\<rparr>]\<rparr>)
      else s)"

text \<open>
  The events of a socket. The connection opens: \<open>ws.onopen\<close> sends the options. A
  message arrives: the browser dispatches it to \<open>ws.onmessage\<close> only while the socket is
  \<open>OPEN\<close>, so one that arrives after \<open>close()\<close> is dropped by the browser.
\<close>

definition ws_open_event :: "nat \<Rightarrow> app_state \<Rightarrow> app_state" where
  "ws_open_event i s =
     (if i < length (sockets s) \<and> readyState (sockets s ! i) = CONNECTING then
        (let ws = sockets s ! i
         in s\<lparr>sockets := (sockets s)[i := ws\<lparr>readyState := OPEN,
                                               sent := sent ws @ [json_of_options (ws_options ws)]\<rparr>]\<rparr>)
      else s)"

definition ws_message_event :: "nat \<Rightarrow> json option \<Rightarrow> app_state \<Rightarrow> app_state" where
  "ws_message_event i event_data s =
     (if i < length (sockets s) \<and> readyState (sockets s ! i) = OPEN then
        (case ws_onmessage event_data of
           OnUpdate t \<Rightarrow> onUpdate t s
         | ConsoleError e \<Rightarrow> s\<lparr>console := console s @ [e]\<rparr>
         | NoEffect \<Rightarrow> s)
      else s)"

text \<open>
  The live captioning toggle. \<open>cleanup\<close> is a local variable of the callback: every call
  of the handler starts with \<open>let cleanup = null\<close>, and the value that \<open>start\<close> assigns
  is lost when the call returns.
\<close>

definition handleLiveCaptioning :: "app_state \<Rightarrow> app_state" where
  "handleLiveCaptioning s =
     (let cleanup = (None :: nat option)
      in if isRecording s then
           (let s1 = (case cleanup of Some c \<Rightarrow> ws_close c s | None \<Rightarrow> s)
            in s1\<lparr>isRecording := False\<rparr>)
         else
           (let s1 = s\<lparr>isRecording := True, error := None\<rparr>;
                (cleanup, s2) = startLiveCaptioning (getTranscriptionOptions s) s1
            in s2))"

section \<open>Vocabulary of the properties\<close>

text \<open>
  Well-formed answers of the service: a transcription result, a batch of them keyed by file
  (keys in the order in which \<open>Object.values\<close> enumerates them), and a session identifier.
\<close>

definition ok_result :: "TranscriptionResult \<Rightarrow> fetch_outcome" where
  "ok_result r = Response True (Some (json_of_result r))"

definition ok_batch :: "(string \<times> TranscriptionResult) list \<Rightarrow> fetch_outcome" where
  "ok_batch rs = Response True (Some (JObj (map (\<lambda>(k, r). (k, json_of_result r)) rs)))"

definition ok_session :: "string \<Rightarrow> fetch_outcome" where
  "ok_session sid = Response True (Some (JObj [(''sessionId'', JStr sid)]))"

text \<open>The text of a result's segments, joined with newlines.\<close>

definition joined_text :: "TranscriptionResult \<Rightarrow> string" where
  "joined_text r = join newline (map seg_text (segments r))"

text \<open>
  Reading a JSON value as a \<open>TranscriptionResult\<close>, field by field as the type is
  declared. The client has no such function: it is the yardstick for "the body can be
  parsed into a TranscriptionResult".
\<close>

fun segment_of_json :: "json \<Rightarrow> TranscriptionSegment option" where
  "segment_of_json (JObj ps) =
     (case (map_of ps ''text'', map_of ps ''start'', map_of ps ''end'') of
        (Some (JStr t), Some (JNum a), Some (JNum b)) \<Rightarrow>
          Some \<lparr>seg_text = t, seg_start = a, seg_end = b\<rparr>
      | other \<Rightarrow> None)"
| "segment_of_json other = None"

fun segments_of_json :: "json list \<Rightarrow> TranscriptionSegment list option" where
  "segments_of_json [] = Some []"
| "segments_of_json (j # js) =
     (case (segment_of_json j, segments_of_json js) of
        (Some seg, Some segs) \<Rightarrow> Some (seg # segs)
      | other \<Rightarrow> None)"

fun result_of_json :: "json \<Rightarrow> TranscriptionResult option" where
  "result_of_json (JObj ps) =
     (case (map_of ps ''original_language'', map_of ps ''output_language'',
            map_of ps ''language_probability'', map_of ps ''segments'', map_of ps ''output_file'') of
        (Some (JStr il), Some (JStr ol), Some (JNum p), Some (JArr js), Some (JStr out)) \<Rightarrow>
          (case segments_of_json js of
             Some segs \<Rightarrow> Some \<lparr>original_language = il, output_language = ol,
                                language_probability = p, segments = segs, output_file = out\<rparr>
           | None \<Rightarrow> None)
      | other \<Rightarrow> None)"
| "result_of_json other = None"

text \<open>
  Incoming live messages. The non-empty \<open>text\<close> of a message, if it has one; a message
  whose \<open>text\<close>, if present, is a string, as the subscriber's parameter is declared; a
  malformed message: not JSON, or JSON without a \<open>text\<close> field.
\<close>

fun nonempty_text :: "json option \<Rightarrow> string option" where
  "nonempty_text (Some (JObj ps)) =
     (case map_of ps ''text'' of
        Some (JStr t) \<Rightarrow> if t \<noteq> [] then Some t else None
      | other \<Rightarrow> None)"
| "nonempty_text other = None"

fun text_is_string :: "json option \<Rightarrow> bool" where
  "text_is_string (Some (JObj ps)) =
     (case map_of ps ''text'' of
        None \<Rightarrow> True
      | Some (JStr t) \<Rightarrow> True
      | Some other \<Rightarrow> False)"
| "text_is_string other = True"

text \<open>
  The \<open>text\<close> of a message when it is truthy: the message is a JSON object, has the
  field, and its value is none of \<open>null\<close>, \<open>false\<close>, \<open>0\<close> and the empty string.
\<close>

fun truthy_text :: "json option \<Rightarrow> json option" where
  "truthy_text (Some (JObj ps)) =
     (case map_of ps ''text'' of
        Some t \<Rightarrow> if truthy (Some t) then Some t else None
      | None \<Rightarrow> None)"
| "truthy_text other = None"

fun malformed :: "json option \<Rightarrow> bool" where
  "malformed None = True"
| "malformed (Some (JObj ps)) = (map_of ps ''text'' = None)"
| "malformed (Some other) = True"

text \<open>Concrete inputs for the examples.\<close>

definition text_message :: "string \<Rightarrow> json option" where
  "text_message t = Some (JObj [(''text'', JStr t)])"

definition example_result :: "string list \<Rightarrow> TranscriptionResult" where
  "example_result ts =
     \<lparr>original_language = ''en'', output_language = ''en'', language_probability = 1,
      segments = map (\<lambda>(i, t). \<lparr>seg_text = t, seg_start = int i, seg_end = int i + 1\<rparr>)
                   (enumerate 0 ts),
      output_file = ''out.txt''\<rparr>"

definition active_state :: app_state where
  "active_state = initial_state\<lparr>isRecording := True, currentSessionId := Some (JStr ''s1'')\<rparr>"

definition live_state :: app_state where
  "live_state = ws_open_event 0 (handleLiveCaptioning initial_state)"

section \<open>Auxiliary facts\<close>

lemma segment_texts_well_formed:
  "segment_texts (map json_of_segment segs) = Inr (map (\<lambda>seg. Some (JStr (seg_text seg))) segs)"
  by (induction segs) (simp_all add: json_of_segment_def)

lemma segments_text_well_formed:
  "segments_text (json_of_result r) = Inr (joined_text r)"
  by (simp add: segments_text_def json_of_result_def segment_texts_well_formed joined_text_def comp_def)

lemma results_texts_well_formed:
  "results_texts (map (\<lambda>(k, r). json_of_result r) rs) = Inr (map (\<lambda>(k, r). joined_text r) rs)"
  by (induction rs) (auto simp add: segments_text_well_formed)

lemma combinedTranscription_well_formed:
  "combinedTranscription (JObj (map (\<lambda>(k, r). (k, json_of_result r)) rs)) =
     Inr (join (newline @ newline) (map (\<lambda>(k, r). joined_text r) rs))"
  using results_texts_well_formed [of rs]
  by (simp add: combinedTranscription_def comp_def case_prod_unfold)

lemma file_completed:
  "fileTranscription (handleFileUpload (Some f) (ok_result r) s) = joined_text r"
  by (simp add: handleFileUpload_def transcribeFile_def ok_result_def Let_def segments_text_well_formed)

lemma batch_completed:
  "fs \<noteq> [] \<Longrightarrow>
     batchTranscription (handleBatchUpload fs (ok_batch rs) s) =
       join (newline @ newline) (map (\<lambda>(k, r). joined_text r) rs)"
  by (simp add: handleBatchUpload_def transcribeBatch_def ok_batch_def Let_def
      combinedTranscription_well_formed)

lemma mic_completed:
  "isRecording s \<Longrightarrow> truthy (currentSessionId s) \<Longrightarrow>
     micTranscription (handleRecordToggle (ok_result r) s) = joined_text r"
  by (simp add: handleRecordToggle_def stopRecording_def ok_result_def Let_def segments_text_well_formed)

lemma start_completed:
  "\<not> isRecording s \<Longrightarrow>
     handleRecordToggle (ok_session sid) s =
       s\<lparr>requests := requests s @ fst (startRecording (getTranscriptionOptions s) (ok_session sid)),
         currentSessionId := Some (JStr sid), isRecording := True, error := None\<rparr>"
  by (simp add: handleRecordToggle_def startRecording_def ok_session_def Let_def)

lemma stop_resets:
  "isRecording s \<Longrightarrow>
     \<not> isRecording (handleRecordToggle outcome s) \<and>
     currentSessionId (handleRecordToggle outcome s) = null_js"
  by (simp add: handleRecordToggle_def Let_def split: prod.splits sum.splits)

lemma segments_of_json_roundtrip:
  "segments_of_json (map json_of_segment segs) = Some segs"
  by (induction segs) (simp_all add: json_of_segment_def)

lemma result_of_json_roundtrip:
  "result_of_json (json_of_result r) = Some r"
  by (simp add: json_of_result_def segments_of_json_roundtrip)

lemma liveTranscription_fold_onUpdate:
  "liveTranscription (fold onUpdate ts s) =
     liveTranscription s @ concat (map (\<lambda>t. newline @ js_ToString t) ts)"
  by (induction ts arbitrary: s) (simp_all add: onUpdate_def)

lemma delivered_append:
  "delivered (ms @ ms') = delivered ms @ delivered ms'"
  by (induction ms) (simp_all split: onmessage_effect.splits)

lemma ws_onmessage_typed:
  "text_is_string m \<Longrightarrow>
     ws_onmessage m =
       (case nonempty_text m of
          Some t \<Rightarrow> OnUpdate (JStr t)
        | None \<Rightarrow> if m = None then ConsoleError SyntaxError
                 else if m = Some JNull then ConsoleError TypeError
                 else NoEffect)"
proof (cases m)
  case None
  then show ?thesis by (simp add: ws_onmessage_def)
next
  case (Some d)
  assume "text_is_string m"
  with Some show ?thesis
    by (cases d) (simp_all add: ws_onmessage_def split: option.splits json.splits)
qed

lemma ws_onmessage_truthy_text:
  "ws_onmessage m = OnUpdate t \<longleftrightarrow> truthy_text m = Some t"
proof (cases m)
  case None
  then show ?thesis by (simp add: ws_onmessage_def)
next
  case (Some d)
  then show ?thesis
    by (cases d) (auto simp add: ws_onmessage_def split: option.splits)
qed

lemma delivered_truthy_text:
  "delivered ms = List.map_filter truthy_text ms"
proof (induction ms)
  case Nil
  show ?case by (simp add: List.map_filter_simps)
next
  case (Cons m ms)
  show ?case
  proof (cases "truthy_text m")
    case None
    have "delivered (m # ms) = delivered ms"
    proof (cases "ws_onmessage m")
      case (OnUpdate t)
      then have "truthy_text m = Some t"
        by (simp add: ws_onmessage_truthy_text)
      with None show ?thesis by simp
    qed simp_all
    with None Cons show ?thesis by (simp add: List.map_filter_simps)
  next
    case (Some t)
    then have "ws_onmessage m = OnUpdate t"
      by (simp add: ws_onmessage_truthy_text)
    with Some Cons show ?thesis by (simp add: List.map_filter_simps)
  qed
qed

lemma string_text_delivered:
  "\<forall>m \<in> set ms. text_is_string m \<Longrightarrow>
     delivered ms = map JStr (List.map_filter nonempty_text ms)"
proof (induction ms)
  case Nil
  show ?case by (simp add: List.map_filter_simps)
next
  case (Cons m ms)
  then have "text_is_string m"
    and "delivered ms = map JStr (List.map_filter nonempty_text ms)"
    by simp_all
  then show ?case
    by (simp add: ws_onmessage_typed List.map_filter_simps split: option.splits)
qed

lemma ws_onmessage_malformed:
  "malformed m \<Longrightarrow> ws_onmessage m = NoEffect \<or> (\<exists>e. ws_onmessage m = ConsoleError e)"
proof (cases m)
  case None
  then show ?thesis by (simp add: ws_onmessage_def)
next
  case (Some d)
  assume "malformed m"
  with Some show ?thesis by (cases d) (simp_all add: ws_onmessage_def)
qed

text \<open>
  On an open socket, a sequence of messages extends the live buffer by the delivered
  fragments, one line each, in the order of arrival.
\<close>

lemma dispatch_in_order:
  "i < length (sockets s) \<Longrightarrow> readyState (sockets s ! i) = OPEN \<Longrightarrow>
     liveTranscription (fold (ws_message_event i) ms s) =
       liveTranscription s @ concat (map (\<lambda>t. newline @ js_ToString t) (delivered ms))"
proof (induction ms arbitrary: s)
  case Nil
  then show ?case by simp
next
  case (Cons m ms)
  let ?s = "ws_message_event i m s"
  have "sockets ?s = sockets s"
    by (simp add: ws_message_event_def onUpdate_def split: onmessage_effect.splits)
  with Cons.prems have "i < length (sockets ?s)" "readyState (sockets ?s ! i) = OPEN"
    by simp_all
  then have "liveTranscription (fold (ws_message_event i) ms ?s) =
       liveTranscription ?s @ concat (map (\<lambda>t. newline @ js_ToString t) (delivered ms))"
    by (rule Cons.IH)
  moreover have "liveTranscription ?s = liveTranscription s @
       (case ws_onmessage m of OnUpdate t \<Rightarrow> newline @ js_ToString t | other \<Rightarrow> [])"
    using Cons.prems by (simp add: ws_message_event_def onUpdate_def split: onmessage_effect.splits)
  ultimately show ?case
    by (simp split: onmessage_effect.splits)
qed

text \<open>
  The function that \<open>startLiveCaptioning\<close> returns does what its name says: once it has
  been called, the browser dispatches no message of that socket any more.
\<close>

lemma cancel_stops_delivery:
  "ws_message_event i m (ws_close i s) = ws_close i s"
  by (auto simp add: ws_message_event_def ws_close_def Let_def)

text \<open>The stop path of the live toggle changes the recording flag and nothing else.\<close>

lemma stop_path_closes_nothing:
  "isRecording s \<Longrightarrow> handleLiveCaptioning s = s\<lparr>isRecording := False\<rparr>"
  by (simp add: handleLiveCaptioning_def)

text \<open>
  The guard of the unmount cleanup is JavaScript truthiness: an empty session identifier
  counts as no session.
\<close>

lemma empty_session_id_not_stopped:
  "currentSessionId s = Some (JStr []) \<Longrightarrow> unmount_cleanup outcome s = s"
  by (simp add: unmount_cleanup_def)

section \<open>The session controller\<close>

text \<open>
  C1, as stated, does not hold. The client has no \<open>AlreadyActiveError\<close> and no check for
  an active session: with a session stored and the recording flag set,
  \<open>api.startRecording\<close> resolves with the identifier that the service sends, and the
  record toggle runs its stop branch, issues the stop request and reports no error.
\<close>

theorem start_while_active_counterexample:
  "isRecording active_state \<and> truthy (currentSessionId active_state) \<and>
   snd (startRecording (getTranscriptionOptions active_state) (ok_session ''s2'')) =
     Inr (Some (JStr ''s2'')) \<and>
   error (handleRecordToggle (ok_result (example_result [''hello''])) active_state) = None \<and>
   map url (requests (handleRecordToggle (ok_result (example_result [''hello''])) active_state)) =
     [''http://localhost:8000/stop-recording'']"
  by (simp add: active_state_def initial_state_def startRecording_def ok_session_def
      handleRecordToggle_def stopRecording_def ok_result_def segments_text_well_formed
      BASE_URL_def Let_def)

text \<open>
  C1, amended. \<open>api.startRecording\<close> looks at no session state: whenever the service
  answers with a session identifier, it resolves with that identifier. Mutual exclusion is
  the toggle's: while the recording flag is set, the record toggle issues no start request;
  it issues the stop request (when an identifier is stored) and nothing else, and leaves
  the flag cleared and the identifier \<open>null\<close>, whatever the outcome of the stop. The next
  toggle then issues a start request, and when the service answers with an identifier the
  start succeeds: the identifier is stored, the flag is set and the error is cleared.
\<close>

theorem toggle_stops_then_starts:
  "snd (startRecording options (ok_session sid)) = Inr (Some (JStr sid)) \<and>
   (isRecording s \<longrightarrow>
      map url (requests (handleRecordToggle outcome s)) =
        map url (requests s) @
          (if truthy (currentSessionId s) then [BASE_URL @ ''/stop-recording''] else []) \<and>
      (let s1 = handleRecordToggle outcome s;
           s2 = handleRecordToggle (ok_session sid) s1
       in \<not> isRecording s1 \<and> currentSessionId s1 = null_js \<and>
          isRecording s2 \<and> currentSessionId s2 = Some (JStr sid) \<and> error s2 = None \<and>
          map url (requests s2) = map url (requests s1) @ [BASE_URL @ ''/start-recording'']))"
proof -
  have a: "snd (startRecording options (ok_session sid)) = Inr (Some (JStr sid))"
    by (simp add: startRecording_def ok_session_def Let_def)
  have b: "map url (requests (handleRecordToggle outcome s)) =
        map url (requests s) @
          (if truthy (currentSessionId s) then [BASE_URL @ ''/stop-recording''] else [])"
    if "isRecording s"
    using that
    by (simp add: handleRecordToggle_def stopRecording_def Let_def
        split: fetch_outcome.splits sum.splits)
  have c: "\<not> isRecording (handleRecordToggle outcome s) \<and>
           currentSessionId (handleRecordToggle outcome s) = null_js"
    if "isRecording s"
    using that by (rule stop_resets)
  have d: "isRecording (handleRecordToggle (ok_session sid) s1) \<and>
           currentSessionId (handleRecordToggle (ok_session sid) s1) = Some (JStr sid) \<and>
           error (handleRecordToggle (ok_session sid) s1) = None \<and>
           map url (requests (handleRecordToggle (ok_session sid) s1)) =
             map url (requests s1) @ [BASE_URL @ ''/start-recording'']"
    if "\<not> isRecording s1" for s1
    unfolding start_completed [OF that]
    by (simp add: startRecording_def ok_session_def Let_def)
  show ?thesis
  proof (intro conjI impI)
    show "snd (startRecording options (ok_session sid)) = Inr (Some (JStr sid))"
      by (rule a)
  next
    assume "isRecording s"
    then show "map url (requests (handleRecordToggle outcome s)) =
        map url (requests s) @
          (if truthy (currentSessionId s) then [BASE_URL @ ''/stop-recording''] else [])"
      by (rule b)
  next
    assume rec: "isRecording s"
    have "\<not> isRecording (handleRecordToggle outcome s)"
      using c [OF rec] by blast
    from d [OF this] c [OF rec]
    show "let s1 = handleRecordToggle outcome s;
              s2 = handleRecordToggle (ok_session sid) s1
          in \<not> isRecording s1 \<and> currentSessionId s1 = null_js \<and>
             isRecording s2 \<and> currentSessionId s2 = Some (JStr sid) \<and> error s2 = None \<and>
             map url (requests s2) = map url (requests s1) @ [BASE_URL @ ''/start-recording'']"
      unfolding Let_def by blast
  qed
qed

theorem toggle_stops_then_starts_witness:
  "isRecording active_state \<and>
   map url (requests (handleRecordToggle NetworkFailure active_state)) =
     [''http://localhost:8000/stop-recording''] \<and>
   \<not> isRecording (handleRecordToggle NetworkFailure active_state) \<and>
   isRecording (handleRecordToggle (ok_session ''s2'')
                  (handleRecordToggle NetworkFailure active_state)) \<and>
   currentSessionId (handleRecordToggle (ok_session ''s2'')
                       (handleRecordToggle NetworkFailure active_state)) = Some (JStr ''s2'')"
  using toggle_stops_then_starts
          [of "getTranscriptionOptions active_state" "''s2''" active_state NetworkFailure]
  by (simp add: active_state_def initial_state_def BASE_URL_def Let_def)

text \<open>
  C6. When the record toggle is invoked while recording, then, whether the stop request
  succeeds or fails (for every outcome of the request), the stored session identifier is
  \<open>null\<close> and the recording flag is false once the handler has finished.
\<close>

theorem stop_discards_session:
  "isRecording s \<Longrightarrow>
     currentSessionId (handleRecordToggle outcome s) = null_js \<and>
     \<not> isRecording (handleRecordToggle outcome s)"
  by (simp add: handleRecordToggle_def Let_def split: prod.splits sum.splits)

theorem stop_discards_session_witness:
  "isRecording active_state \<and>
   currentSessionId (handleRecordToggle NetworkFailure active_state) = null_js \<and>
   \<not> isRecording (handleRecordToggle NetworkFailure active_state) \<and>
   error (handleRecordToggle NetworkFailure active_state) = Some (EngineMessage TypeError) \<and>
   currentSessionId (handleRecordToggle (ok_result (example_result [''hello''])) active_state) = null_js \<and>
   \<not> isRecording (handleRecordToggle (ok_result (example_result [''hello''])) active_state) \<and>
   micTranscription (handleRecordToggle (ok_result (example_result [''hello''])) active_state) = ''hello''"
  using stop_discards_session [of active_state NetworkFailure]
    stop_discards_session [of active_state "ok_result (example_result [''hello''])"]
  by (simp add: active_state_def initial_state_def handleRecordToggle_def stopRecording_def
      caught_message_def ok_result_def segments_text_well_formed joined_text_def
      example_result_def Let_def)

text \<open>
  C8. If the component unmounts while a session identifier (a non-empty string) is stored,
  exactly one stop request carrying that identifier is issued. Whatever its outcome, the
  state differs only in the requests issued and in the console: a failure is written with
  \<open>console.error\<close>, and the user-visible error state is not touched.
\<close>

theorem unmount_issues_best_effort_stop:
  "currentSessionId s = Some (JStr sid) \<Longrightarrow> sid \<noteq> [] \<Longrightarrow>
     unmount_cleanup outcome s =
       s\<lparr>requests := requests s @
            [Request (BASE_URL @ ''/stop-recording'') ''POST''
               [(''Content-Type'', ''application/json'')]
               (JsonText (JObj [(''sessionId'', JStr sid)]))],
         console := console s @
            (case snd (stopRecording (Some (JStr sid)) outcome) of
               Inl err \<Rightarrow> [err]
             | Inr result \<Rightarrow> [])\<rparr> \<and>
     error (unmount_cleanup outcome s) = error s"
  by (simp add: unmount_cleanup_def stopRecording_def Let_def
      split: fetch_outcome.splits sum.splits)

theorem unmount_issues_best_effort_stop_witness:
  "currentSessionId active_state = Some (JStr ''s1'') \<and> ''s1'' \<noteq> [] \<and>
   map url (requests (unmount_cleanup NetworkFailure active_state)) =
     [''http://localhost:8000/stop-recording''] \<and>
   console (unmount_cleanup NetworkFailure active_state) = [TypeError] \<and>
   error (unmount_cleanup NetworkFailure active_state) = None"
  using unmount_issues_best_effort_stop [of active_state "''s1''" NetworkFailure]
  by (simp add: active_state_def initial_state_def stopRecording_def BASE_URL_def)

section \<open>The live stream\<close>

text \<open>
  C2. After the stop path of the live captioning toggle, no further fragment should reach
  the subscriber. The code does otherwise: the stop path finds its local \<open>cleanup\<close>
  \<open>null\<close>, so the function returned by \<open>startLiveCaptioning\<close> is never called and the
  socket stays open. Start, one fragment, stop, and a second fragment: the recording flag
  is cleared, the socket is still \<open>OPEN\<close>, and the second fragment is appended to the
  live buffer.
\<close>

theorem fragment_delivered_after_stop:
  "(let s1 = handleLiveCaptioning initial_state;
        s2 = ws_open_event 0 s1;
        s3 = ws_message_event 0 (text_message ''a'') s2;
        s4 = handleLiveCaptioning s3;
        s5 = ws_message_event 0 (text_message ''b'') s4
    in isRecording s3 \<and> liveTranscription s3 = newline @ ''a'' \<and>
       \<not> isRecording s4 \<and> map readyState (sockets s4) = [OPEN] \<and>
       liveTranscription s5 = newline @ ''a'' @ newline @ ''b'')"
  by (simp add: handleLiveCaptioning_def startLiveCaptioning_def ws_open_event_def
      ws_message_event_def ws_onmessage_def onUpdate_def text_message_def initial_state_def
      Let_def)

text \<open>
  C3, as stated, does not hold for every sequence of messages. The guard of \<open>ws.onmessage\<close>
  is \<open>if (data.text)\<close> on an unchecked value: a message whose \<open>text\<close> is the number
  \<open>1\<close> or the empty array has no non-empty text, and is delivered; a message whose
  \<open>text\<close> is \<open>0\<close> or \<open>false\<close> has the field, not empty, and is not delivered.
\<close>

theorem non_string_text_counterexample:
  "delivered [Some (JObj [(''text'', JNum 1)])] = [JNum 1] \<and>
   List.map_filter nonempty_text [Some (JObj [(''text'', JNum 1)])] = [] \<and>
   delivered [Some (JObj [(''text'', JArr [])])] = [JArr []] \<and>
   delivered [Some (JObj [(''text'', JNum 0)]), Some (JObj [(''text'', JBool False)])] = []"
  by (simp add: ws_onmessage_def List.map_filter_simps)

text \<open>
  C3, amended. For every sequence of incoming messages, exactly those messages that parse
  to a JSON object with a truthy \<open>text\<close> field (any value but \<open>null\<close>, \<open>false\<close>,
  \<open>0\<close> and the empty string) are delivered to the subscriber, each with its \<open>text\<close>
  value, in the order of arrival. Where the \<open>text\<close> of every message, if present, is a
  string, these are exactly the messages with a non-empty \<open>text\<close>. The sequence
  \<open>{"text":"a"}\<close>, \<open>{"text":""}\<close>, \<open>{"text":"b"}\<close> gives the two deliveries \<open>a\<close>
  and \<open>b\<close>, in that order.
\<close>

theorem truthy_text_delivered_in_order:
  "delivered ms = List.map_filter truthy_text ms \<and>
   ((\<forall>m \<in> set ms. text_is_string m) \<longrightarrow>
      delivered ms = map JStr (List.map_filter nonempty_text ms)) \<and>
   delivered [text_message ''a'', text_message [], text_message ''b''] = [JStr ''a'', JStr ''b'']"
proof (intro conjI impI)
  show "delivered ms = List.map_filter truthy_text ms"
    by (rule delivered_truthy_text)
next
  assume "\<forall>m \<in> set ms. text_is_string m"
  then show "delivered ms = map JStr (List.map_filter nonempty_text ms)"
    by (rule string_text_delivered)
next
  show "delivered [text_message ''a'', text_message [], text_message ''b''] = [JStr ''a'', JStr ''b'']"
    by (simp add: text_message_def ws_onmessage_def)
qed

theorem truthy_text_delivered_in_order_witness:
  "text_is_string (text_message ''x'') \<and> text_is_string None \<and>
   text_is_string (text_message []) \<and> text_is_string (text_message ''y'') \<and>
   delivered [text_message ''x'', None, text_message [], text_message ''y''] =
     [JStr ''x'', JStr ''y''] \<and>
   List.map_filter truthy_text [text_message ''x'', None, text_message [], text_message ''y''] =
     [JStr ''x'', JStr ''y'']"
  using truthy_text_delivered_in_order
          [of "[text_message ''x'', None, text_message [], text_message ''y'']"]
  by (simp add: text_message_def List.map_filter_simps)

text \<open>
  C4. A malformed incoming message (not JSON, or JSON without a \<open>text\<close> field) is
  discarded: nothing is delivered to the subscriber, the state changes at most in the
  console, so the live buffer is unchanged and every socket is as open as it was, and the
  deliveries of the messages around it are what they are without it.
\<close>

theorem malformed_message_discarded:
  "malformed m \<Longrightarrow>
     ws_message_event i m s = s\<lparr>console := console (ws_message_event i m s)\<rparr> \<and>
     liveTranscription (ws_message_event i m s) = liveTranscription s \<and>
     sockets (ws_message_event i m s) = sockets s \<and>
     delivered (ms @ m # ms') = delivered (ms @ ms')"
proof -
  assume "malformed m"
  then consider "ws_onmessage m = NoEffect" | e where "ws_onmessage m = ConsoleError e"
    using ws_onmessage_malformed by blast
  then show ?thesis
    by cases (simp_all add: ws_message_event_def delivered_append)
qed

theorem malformed_message_discarded_witness:
  "malformed None \<and>
   liveTranscription (ws_message_event 0 None live_state) = [] \<and>
   map readyState (sockets (ws_message_event 0 None live_state)) = [OPEN] \<and>
   console (ws_message_event 0 None live_state) = [SyntaxError] \<and>
   delivered [text_message ''a'', None, text_message ''b''] =
     delivered [text_message ''a'', text_message ''b'']"
  using malformed_message_discarded
          [of None 0 live_state "[text_message ''a'']" "[text_message ''b'']"]
  by (simp add: live_state_def ws_open_event_def handleLiveCaptioning_def
      startLiveCaptioning_def initial_state_def ws_message_event_def ws_onmessage_def Let_def)

text \<open>
  C9. Into an empty live buffer, a fragment with text \<open>t\<close> leaves the buffer equal to the
  newline character followed by \<open>t\<close>; and after any fragments delivered into an empty
  buffer, the buffer begins with the newline character, not with a fragment's text.
\<close>

theorem first_fragment_prefixed:
  "liveTranscription (onUpdate (JStr t) (s\<lparr>liveTranscription := []\<rparr>)) = CHR 0x0A # t \<and>
   take 1 (liveTranscription
            (fold onUpdate (map JStr (t # ts)) (s\<lparr>liveTranscription := []\<rparr>))) = [CHR 0x0A]"
  by (simp add: liveTranscription_fold_onUpdate) (simp add: onUpdate_def newline_def)

section \<open>The request client\<close>

text \<open>
  C7, as stated, does not hold: a body that is JSON is returned as it is, without looking
  at its shape. The empty object cannot be read as a \<open>TranscriptionResult\<close>, and
  \<open>transcribeFile\<close> resolves with it.
\<close>

theorem transcribeFile_unvalidated_counterexample:
  "snd (transcribeFile (File ''a.wav'' []) (getTranscriptionOptions initial_state)
          (Response True (Some (JObj [])))) = Inr (JObj []) \<and>
   result_of_json (JObj []) = None"
  by (simp add: transcribeFile_def)

text \<open>
  C7, amended. \<open>transcribeFile\<close> issues exactly one request per call, a multipart \<open>POST\<close>
  of the file and the four option fields, whatever the outcome. It fails with the
  \<open>TypeError\<close> of \<open>fetch\<close> when the network fails, with \<open>Error("Transcription failed")\<close>
  when the status is not a success, and with the \<open>SyntaxError\<close> of \<open>response.json()\<close>
  when the body is not JSON. Otherwise it returns the parsed body unchanged and unchecked;
  for a well-formed result of the service that is the result itself, its segments the same
  and in the same order.
\<close>

theorem transcribeFile_outcomes:
  "fst (transcribeFile f options outcome) =
     [Request (BASE_URL @ ''/transcribe'') ''POST'' []
        (FormData [(''file'', FilePart f (name f)),
                   (''model_size'', TextPart (modelSize options)),
                   (''input_lang'', TextPart (inputLanguage options)),
                   (''output_lang'', TextPart (outputLanguage options)),
                   (''out_format'', TextPart (format options))])] \<and>
   snd (transcribeFile f options NetworkFailure) = Inl TypeError \<and>
   snd (transcribeFile f options (Response False parsed)) = Inl (Error ''Transcription failed'') \<and>
   snd (transcribeFile f options (Response True None)) = Inl SyntaxError \<and>
   snd (transcribeFile f options (Response True (Some v))) = Inr v \<and>
   snd (transcribeFile f options (ok_result r)) = Inr (json_of_result r) \<and>
   result_of_json (json_of_result r) = Some r"
  by (simp add: transcribeFile_def option_fields_def ok_result_def result_of_json_roundtrip Let_def
      split: fetch_outcome.splits)

section \<open>The transcript store\<close>

text \<open>
  C5, as stated, does not hold for the batch buffer: a batch result holds one result per
  file, and between the files the buffer has an empty line. With one segment \<open>x\<close> in the
  first file and one segment \<open>y\<close> in the second, the buffer is \<open>x\<close>, two newlines,
  \<open>y\<close>, which is not the segments' text joined with newlines.
\<close>

theorem batch_blank_line_counterexample:
  "batchTranscription
     (handleBatchUpload [File ''a.wav'' [], File ''b.wav'' []]
        (ok_batch [(''a.wav'', example_result [''x'']), (''b.wav'', example_result [''y''])])
        initial_state) = ''x'' @ newline @ newline @ ''y'' \<and>
   ''x'' @ newline @ newline @ ''y'' \<noteq> join newline [''x'', ''y'']"
  by (simp add: batch_completed joined_text_def example_result_def newline_def)

text \<open>
  C5, amended. For the file and the mic buffer, completing result R1 and then result R2
  leaves the buffer equal to the text of R2's segments joined with newlines: R1's content
  is replaced. For the batch buffer, completing batch B1 and then batch B2 leaves the
  buffer equal to the joined text of each result of B2, the results separated by an empty
  line: B1's content is replaced. For the live buffer, two consecutive fragments \<open>x\<close> and
  \<open>y\<close> leave the buffer equal to what it was, a newline, \<open>x\<close>, a newline and \<open>y\<close>.
\<close>

theorem completed_results_replace_live_appends:
  "fileTranscription (handleFileUpload (Some f1) (ok_result r1) s) = joined_text r1 \<and>
   fileTranscription (handleFileUpload (Some f2) (ok_result r2)
       (handleFileUpload (Some f1) (ok_result r1) s)) = joined_text r2 \<and>
   (isRecording s \<and> truthy (currentSessionId s) \<and> sid \<noteq> [] \<longrightarrow>
      micTranscription (handleRecordToggle (ok_result r1) s) = joined_text r1 \<and>
      micTranscription (handleRecordToggle (ok_result r2)
        (handleRecordToggle (ok_session sid)
          (handleRecordToggle (ok_result r1) s))) = joined_text r2) \<and>
   (fs1 \<noteq> [] \<and> fs2 \<noteq> [] \<longrightarrow>
      batchTranscription (handleBatchUpload fs1 (ok_batch rs1) s) =
        join (newline @ newline) (map (\<lambda>(k, r). joined_text r) rs1) \<and>
      batchTranscription (handleBatchUpload fs2 (ok_batch rs2)
        (handleBatchUpload fs1 (ok_batch rs1) s)) =
          join (newline @ newline) (map (\<lambda>(k, r). joined_text r) rs2)) \<and>
   liveTranscription (onUpdate (JStr y) (onUpdate (JStr x) s)) =
     liveTranscription s @ newline @ x @ newline @ y"
proof (intro conjI impI)
  show "fileTranscription (handleFileUpload (Some f1) (ok_result r1) s) = joined_text r1"
    by (rule file_completed)
  show "fileTranscription (handleFileUpload (Some f2) (ok_result r2)
       (handleFileUpload (Some f1) (ok_result r1) s)) = joined_text r2"
    by (rule file_completed)
  show "liveTranscription (onUpdate (JStr y) (onUpdate (JStr x) s)) =
     liveTranscription s @ newline @ x @ newline @ y"
    by (simp add: onUpdate_def)
next
  assume a: "isRecording s \<and> truthy (currentSessionId s) \<and> sid \<noteq> []"
  then show "micTranscription (handleRecordToggle (ok_result r1) s) = joined_text r1"
    by (simp add: mic_completed)
  let ?s1 = "handleRecordToggle (ok_result r1) s"
  let ?s2 = "handleRecordToggle (ok_session sid) ?s1"
  have "\<not> isRecording ?s1"
    using a stop_resets by blast
  then have "isRecording ?s2 \<and> truthy (currentSessionId ?s2)"
    using a by (simp add: start_completed)
  then show "micTranscription (handleRecordToggle (ok_result r2) ?s2) = joined_text r2"
    by (simp add: mic_completed)
next
  assume b: "fs1 \<noteq> [] \<and> fs2 \<noteq> []"
  then show "batchTranscription (handleBatchUpload fs1 (ok_batch rs1) s) =
        join (newline @ newline) (map (\<lambda>(k, r). joined_text r) rs1)"
    by (simp add: batch_completed)
  from b show "batchTranscription (handleBatchUpload fs2 (ok_batch rs2)
        (handleBatchUpload fs1 (ok_batch rs1) s)) =
          join (newline @ newline) (map (\<lambda>(k, r). joined_text r) rs2)"
    by (simp add: batch_completed)
qed

theorem completed_results_replace_live_appends_witness:
  "isRecording active_state \<and> truthy (currentSessionId active_state) \<and> ''s2'' \<noteq> [] \<and>
   [File ''a.wav'' []] \<noteq> [] \<and> [File ''b.wav'' []] \<noteq> [] \<and>
   micTranscription (handleRecordToggle (ok_result (example_result [''c'', ''d'']))
     (handleRecordToggle (ok_session ''s2'')
       (handleRecordToggle (ok_result (example_result [''a'', ''b''])) active_state))) =
     ''c'' @ newline @ ''d'' \<and>
   batchTranscription (handleBatchUpload [File ''b.wav'' []]
       (ok_batch [(''b.wav'', example_result [''c'', ''d''])])
     (handleBatchUpload [File ''a.wav'' []]
       (ok_batch [(''a.wav'', example_result [''a'', ''b''])]) active_state)) =
     ''c'' @ newline @ ''d''"
  using completed_results_replace_live_appends
          [of "File ''a.wav'' []" "example_result [''a'', ''b'']" active_state
              "File ''b.wav'' []" "example_result [''c'', ''d'']" "''s2''"
              "[File ''a.wav'' []]" "[File ''b.wav'' []]"
              "[(''a.wav'', example_result [''a'', ''b''])]"
              "[(''b.wav'', example_result [''c'', ''d''])]"]
  by (simp add: active_state_def initial_state_def joined_text_def example_result_def)

text \<open>
  C10. The file upload handler called with no file selected, and the batch upload handler
  called with an empty list of files, return the state they were given: no request is
  issued (the requests are part of the state), and every transcript buffer, the processing
  flag and the error state keep their values, whatever the service would have answered.
\<close>

theorem upload_without_file_is_noop:
  "handleFileUpload None outcome s = s \<and> handleBatchUpload [] outcome' s = s"
  by (simp add: handleFileUpload_def handleBatchUpload_def)

end
